theory Spec2Isabelle
  imports Main
begin

section \<open>Python text primitives used by the entry point\<close>

text \<open>
  The script under verification is \<^verbatim>\<open>lib/ansible/cli/scripts/ansible_cli_stub.py\<close>.
  A Python \<^verbatim>\<open>str\<close> is modelled as a \<^typ>\<open>string\<close> whose characters are read as the
  code points U+0000 to U+00FF. An element of \<^verbatim>\<open>sys.argv\<close> is written as the bytes the
  process received: Python 3 decodes them with surrogate escapes, which loses nothing.
\<close>

definition isdigit :: "char \<Rightarrow> bool" where
  \<comment> \<open>\<^verbatim>\<open>str.isdigit\<close> on one character: the ASCII digits and the superscripts
      U+00B2, U+00B3 and U+00B9 are the digits below U+0100.\<close>
  "isdigit c =
     (let n = (of_char c :: nat)
      in (48 \<le> n \<and> n \<le> 57) \<or> n = 178 \<or> n = 179 \<or> n = 185)"

definition ascii_lowercase :: string where
  "ascii_lowercase = ''abcdefghijklmnopqrstuvwxyz''"

definition ascii_uppercase :: string where
  "ascii_uppercase = ''ABCDEFGHIJKLMNOPQRSTUVWXYZ''"

definition latin1_lowercase :: string where
  \<comment> \<open>U+00E0 to U+00FE without the division sign U+00F7\<close>
  "latin1_lowercase =
     [
      CHR 0xE0, CHR 0xE1, CHR 0xE2, CHR 0xE3, CHR 0xE4, CHR 0xE5, CHR 0xE6, CHR 0xE7,
      CHR 0xE8, CHR 0xE9, CHR 0xEA, CHR 0xEB, CHR 0xEC, CHR 0xED, CHR 0xEE, CHR 0xEF,
      CHR 0xF0, CHR 0xF1, CHR 0xF2, CHR 0xF3, CHR 0xF4, CHR 0xF5, CHR 0xF6, CHR 0xF8,
      CHR 0xF9, CHR 0xFA, CHR 0xFB, CHR 0xFC, CHR 0xFD, CHR 0xFE]"

definition latin1_uppercase :: string where
  \<comment> \<open>U+00C0 to U+00DE without the multiplication sign U+00D7\<close>
  "latin1_uppercase =
     [
      CHR 0xC0, CHR 0xC1, CHR 0xC2, CHR 0xC3, CHR 0xC4, CHR 0xC5, CHR 0xC6, CHR 0xC7,
      CHR 0xC8, CHR 0xC9, CHR 0xCA, CHR 0xCB, CHR 0xCC, CHR 0xCD, CHR 0xCE, CHR 0xCF,
      CHR 0xD0, CHR 0xD1, CHR 0xD2, CHR 0xD3, CHR 0xD4, CHR 0xD5, CHR 0xD6, CHR 0xD8,
      CHR 0xD9, CHR 0xDA, CHR 0xDB, CHR 0xDC, CHR 0xDD, CHR 0xDE]"

definition upper_char :: "char \<Rightarrow> char" where
  "upper_char c =
     (case map_of (zip (ascii_lowercase @ latin1_lowercase) (ascii_uppercase @ latin1_uppercase)) c of
        Some u \<Rightarrow> u
      | None \<Rightarrow> c)"

definition lower_char :: "char \<Rightarrow> char" where
  "lower_char c =
     (case map_of (zip (ascii_uppercase @ latin1_uppercase) (ascii_lowercase @ latin1_lowercase)) c of
        Some l \<Rightarrow> l
      | None \<Rightarrow> c)"

definition capitalize :: "string \<Rightarrow> string" where
  \<comment> \<open>\<^verbatim>\<open>str.capitalize\<close>: first character upper-cased, the rest lower-cased, with the
      case pairs of U+0000 to U+00FF. Three first characters are left as they are because
      their capital lies outside that range: U+00B5, U+00DF and U+00FF. The result is only
      used as the class name handed to the import.\<close>
  "capitalize s = (case s of [] \<Rightarrow> [] | c # cs \<Rightarrow> upper_char c # map lower_char cs)"

fun str_split :: "char \<Rightarrow> string \<Rightarrow> string list" where
  \<comment> \<open>\<^verbatim>\<open>s.split(sep)\<close> for a one-character separator: never the empty list.\<close>
  "str_split sep [] = [[]]"
| "str_split sep (x # xs) =
     (if x = sep then [] # str_split sep xs
      else (case str_split sep xs of
              [] \<Rightarrow> [[x]]
            | t # ts \<Rightarrow> (x # t) # ts))"

definition endswith :: "string \<Rightarrow> string \<Rightarrow> bool" where
  \<comment> \<open>\<^verbatim>\<open>s.endswith(suf)\<close>\<close>
  "endswith s suf = (take (length suf) (rev s) = rev suf)"

section \<open>Exceptions\<close>

text \<open>
  An exception is classified by the first \<^verbatim>\<open>except\<close> clause of the script that would
  match it. \<^verbatim>\<open>AnsibleOptionsError\<close> and \<^verbatim>\<open>AnsibleParserError\<close> are subclasses of
  \<^verbatim>\<open>AnsibleError\<close>; \<^verbatim>\<open>KeyboardInterrupt\<close> is not an \<^verbatim>\<open>Exception\<close>;
  \<open>OtherBaseException\<close> stands for the remaining non-\<^verbatim>\<open>Exception\<close> classes
  (\<^verbatim>\<open>SystemExit\<close>, \<^verbatim>\<open>GeneratorExit\<close>). \<open>msg\<close> is \<^verbatim>\<open>to_text(e)\<close>, and \<open>orig_exc\<close>
  holds \<^verbatim>\<open>to_text(type(e.orig_exc))\<close> and \<^verbatim>\<open>to_text(e.orig_exc)\<close> when the object has
  that attribute.
\<close>

datatype exc_kind =
    AnsibleOptionsError
  | AnsibleParserError
  | AnsibleError
  | KeyboardInterrupt
  | ImportError
  | IndexError
  | AttributeError
  | UnicodeError
  | OtherException
  | OtherBaseException

datatype exc = Exc (kind: exc_kind) (msg: string) (orig_exc: "(string \<times> string) option")

definition string_index_error :: exc where
  "string_index_error = Exc IndexError ''string index out of range'' None"

definition list_index_error :: exc where
  "list_index_error = Exc IndexError ''list index out of range'' None"

section \<open>Alias resolution (lines 85 to 98)\<close>

definition resolve_alias :: "string \<Rightarrow> exc + (string \<times> string)" where
  \<comment> \<open>Returns \<open>(sub, myclass)\<close>. \<^verbatim>\<open>target[-1][0]\<close> raises on an empty last token and
      \<^verbatim>\<open>target[0]\<close> raises on an empty list.\<close>
  "resolve_alias me =
     (let target = str_split CHR ''-'' me in
      case target of
        [] \<Rightarrow> Inl list_index_error
      | _ # _ \<Rightarrow>
          (case last target of
             [] \<Rightarrow> Inl string_index_error
           | c # _ \<Rightarrow>
               (let target = (if isdigit c then butlast target else target) in
                if length target > 1 then
                  (let sub = target ! 1 in Inr (sub, capitalize sub @ ''CLI''))
                else
                  (case target of
                     [] \<Rightarrow> Inl list_index_error
                   | t # _ \<Rightarrow>
                       if t = ''ansible'' then Inr (''adhoc'', ''AdHocCLI'')
                       else Inl (Exc AnsibleError (''Unknown Ansible alias: '' @ me) None)))))"

section \<open>The collaborators, as the script sees them\<close>

text \<open>
  Everything the script calls but does not define is an input of the model: the outcome of
  each external call is a field of the environment. Output goes to one of two sinks, the
  class \<^verbatim>\<open>LastResort\<close> of the script or the \<^verbatim>\<open>Display\<close> object that replaces it at
  line 75, and is recorded as a list of events in program order.
\<close>

datatype sink = LastResort | Display

datatype event =
    Deprecated  \<comment> \<open>\<^verbatim>\<open>display.deprecated(...)\<close>, line 77\<close>
  | Debug string  \<comment> \<open>\<^verbatim>\<open>display.debug(msg)\<close>\<close>
  | Warning string  \<comment> \<open>\<^verbatim>\<open>display.warning(msg)\<close>\<close>
  | ErrorMsg sink string  \<comment> \<open>\<^verbatim>\<open>display.error(msg)\<close>\<close>
  | DisplayMsg sink string bool  \<comment> \<open>\<^verbatim>\<open>display.display(msg, log_only)\<close>\<close>
  | Traceback sink exc bool
      \<comment> \<open>\<^verbatim>\<open>display.display("the full traceback was: ..." , log_only)\<close>, line 164\<close>
  | ArgsTraceback  \<comment> \<open>\<^verbatim>\<open>display.display("The full traceback was: ...")\<close>, line 125\<close>
  | VVV string  \<comment> \<open>\<^verbatim>\<open>display.vvv(msg)\<close>\<close>
  | PrintHelp  \<comment> \<open>\<^verbatim>\<open>cli.parser.print_help()\<close>\<close>
  | Construct "string list"  \<comment> \<open>\<^verbatim>\<open>mycli(args)\<close> is called\<close>
  | RunCLI  \<comment> \<open>\<^verbatim>\<open>cli.run()\<close> is called\<close>

datatype outcome =
    Exit int  \<comment> \<open>\<^verbatim>\<open>sys.exit(exit_code)\<close>\<close>
  | Uncaught exc  \<comment> \<open>the exception leaves the script\<close>

record cli_obj =
  parser_available :: bool  \<comment> \<open>\<^verbatim>\<open>cli.parser\<close> exists and can print help\<close>
  run :: "exc + int"  \<comment> \<open>what \<^verbatim>\<open>cli.run()\<close> does\<close>

record 'a env =
  constants_import :: "exc option"
    \<comment> \<open>the imports of lines 63 and 64; \<open>None\<close> when they succeed\<close>
  CONTROLLER_PYTHON_WARNING :: bool
  PY38_MIN :: bool
  DEFAULT_DEBUG :: bool
  CLIARGS :: "int option"
    \<comment> \<open>\<^verbatim>\<open>context.CLIARGS\<close>: \<open>None\<close> when it is empty, else its \<^verbatim>\<open>'verbosity'\<close>\<close>
  argv0 :: string  \<comment> \<open>\<^verbatim>\<open>sys.argv[0]\<close>\<close>
  argv :: "'a list"  \<comment> \<open>\<^verbatim>\<open>sys.argv\<close>, as handed to \<^verbatim>\<open>to_text\<close>\<close>
  to_text :: "'a \<Rightarrow> string option"
    \<comment> \<open>\<^verbatim>\<open>to_text(a, errors='surrogate_or_strict')\<close>; \<open>None\<close> is \<^verbatim>\<open>UnicodeError\<close>\<close>
  Display_init :: "exc option"  \<comment> \<open>\<^verbatim>\<open>Display()\<close>; \<open>None\<close> when it succeeds\<close>
  import_cli :: "string \<Rightarrow> string \<Rightarrow> exc + (string list \<Rightarrow> exc + cli_obj)"
    \<comment> \<open>\<^verbatim>\<open>getattr(__import__(module, fromlist=[myclass]), myclass)\<close>\<close>
  os_mkdir :: "(nat \<times> string) option"
    \<comment> \<open>\<^verbatim>\<open>os.mkdir(b_ansible_dir, 0o700)\<close>: \<open>None\<close> when it succeeds, else the
        \<^verbatim>\<open>errno\<close> and the text of the \<^verbatim>\<open>OSError\<close>\<close>
  b_ansible_dir :: string  \<comment> \<open>the expanded \<^verbatim>\<open>~/.ansible\<close>, as text\<close>

definition basename :: "string \<Rightarrow> string" where
  \<comment> \<open>\<^verbatim>\<open>os.path.basename\<close>: what follows the last slash\<close>
  "basename p = rev (takeWhile (\<lambda>c. c \<noteq> CHR ''/'') (rev p))"

section \<open>Implementation loader (lines 100 to 108)\<close>

definition load_cli ::
  "(string \<Rightarrow> string \<Rightarrow> exc + 'c) \<Rightarrow> string \<Rightarrow> string \<Rightarrow> string \<Rightarrow> exc + 'c" where
  "load_cli imp me sub myclass =
     (case imp (''ansible.cli.'' @ sub) myclass of
        Inr mycli \<Rightarrow> Inr mycli
      | Inl e \<Rightarrow>
          if kind e = ImportError then
            (if endswith (msg e) (CHR '' '' # sub)
             then Inl (Exc AnsibleError (''Ansible sub-program not implemented: '' @ me) None)
             else Inl e)
          else Inl e)"

definition module_not_found :: "string \<Rightarrow> exc" where
  \<comment> \<open>What Python 3 raises for a module that does not exist:
      \<^verbatim>\<open>ModuleNotFoundError("No module named 'ansible.cli.foo'")\<close>, an \<^verbatim>\<open>ImportError\<close>.\<close>
  "module_not_found name = Exc ImportError (''No module named '' @ [CHR 0x27] @ name @ [CHR 0x27]) None"

section \<open>State directory (lines 110 to 119)\<close>

definition EEXIST :: nat where
  "EEXIST = 17"

definition ensure_state_directory :: "string \<Rightarrow> (nat \<times> string) option \<Rightarrow> event list" where
  \<comment> \<open>The \<^verbatim>\<open>try/except OSError/else\<close> around \<^verbatim>\<open>os.mkdir\<close>, given what \<^verbatim>\<open>os.mkdir\<close> did.\<close>
  "ensure_state_directory dir r =
     (case r of
        Some (errno, detail) \<Rightarrow>
          if errno \<noteq> EEXIST
          then [Warning (''Failed to create the directory '' @ [CHR 0x27] @ dir @ [CHR 0x27] @ '': '' @ detail)]
          else []
      | None \<Rightarrow> [Debug (''Created the '' @ [CHR 0x27] @ dir @ [CHR 0x27] @ '' directory'')])"

definition fs_mkdir ::
  "(string \<Rightarrow> (nat \<times> string) option) \<Rightarrow> string set \<Rightarrow> string \<Rightarrow> string set \<times> (nat \<times> string) option" where
  \<comment> \<open>An idealised \<^verbatim>\<open>os.mkdir\<close> on a file system that holds the directories \<open>dirs\<close> and
      whose path prefixes can all be searched: an existing path gives \<^verbatim>\<open>EEXIST\<close>;
      otherwise the creation succeeds unless \<open>fault\<close> names an error for the path
      (permission denied, read-only file system, missing parent). A path that exists
      behind a directory that cannot be searched is outside this model.\<close>
  "fs_mkdir fault dirs p =
     (if p \<in> dirs then (dirs, Some (EEXIST, ''File exists''))
      else (case fault p of
              Some err \<Rightarrow> (dirs, Some err)
            | None \<Rightarrow> (insert p dirs, None)))"

definition prepare ::
  "(string \<Rightarrow> (nat \<times> string) option) \<Rightarrow> string set \<Rightarrow> string \<Rightarrow> string set \<times> event list" where
  \<comment> \<open>One run of lines 110 to 119 on that file system.\<close>
  "prepare fault dirs p =
     (case fs_mkdir fault dirs p of (dirs', r) \<Rightarrow> (dirs', ensure_state_directory p r))"

section \<open>Argument re-encoding (line 122)\<close>

fun to_text_args :: "('a \<Rightarrow> string option) \<Rightarrow> 'a list \<Rightarrow> string list option" where
  \<comment> \<open>The list comprehension: the first argument that fails raises \<^verbatim>\<open>UnicodeError\<close>.\<close>
  "to_text_args f [] = Some []"
| "to_text_args f (a # as) =
     (case f a of
        None \<Rightarrow> None
      | Some t \<Rightarrow> (case to_text_args f as of None \<Rightarrow> None | Some ts \<Rightarrow> Some (t # ts)))"

definition invalid_utf8_byte :: "char \<Rightarrow> bool" where
  \<comment> \<open>The bytes that occur in no UTF-8 encoding: 0xC0, 0xC1 and 0xF5 to 0xFF.\<close>
  "invalid_utf8_byte c =
     (let n = (of_char c :: nat) in n = 192 \<or> n = 193 \<or> 245 \<le> n)"

definition py3_to_text :: "string \<Rightarrow> string option" where
  \<comment> \<open>\<^verbatim>\<open>to_text\<close> of \<^verbatim>\<open>ansible.module_utils._text\<close> as the script calls it under Python 3.
      The elements of \<^verbatim>\<open>sys.argv\<close> are \<^verbatim>\<open>str\<close> objects there (a byte that is not UTF-8 is
      kept as a surrogate escape), and \<^verbatim>\<open>to_text\<close> returns a \<^verbatim>\<open>str\<close> as it is, whatever
      the error handler: it never raises \<^verbatim>\<open>UnicodeError\<close>. An argument is written as the
      bytes it stands for.\<close>
  "py3_to_text a = Some a"

section \<open>The dispatcher (lines 58 to 167)\<close>

text \<open>
  The model starts where the \<^verbatim>\<open>__main__\<close> block starts: the version check of lines 39 to
  46 has passed. \<^verbatim>\<open>initialize_locale()\<close> and the methods of the display object return
  normally, except \<^verbatim>\<open>vvv\<close>, which \<^verbatim>\<open>LastResort\<close> does not have. An exception raised
  inside an \<^verbatim>\<open>except\<close> clause is not caught by the sibling clauses and leaves the script.
\<close>

definition attribute_error :: "string \<Rightarrow> exc" where
  "attribute_error m = Exc AttributeError m None"

definition pipeline ::
  "'a env \<Rightarrow> event list \<times> sink \<times> cli_obj option \<times> (exc + int)" where
  \<comment> \<open>The body of the \<^verbatim>\<open>try\<close> of lines 74 to 129: the events, the value of \<^verbatim>\<open>display\<close> and
      of \<^verbatim>\<open>cli\<close> when the body ends, and the exception raised or \<^verbatim>\<open>exit_code\<close>.\<close>
  "pipeline env =
     (let me = basename (argv0 env) in
      case Display_init env of
        Some e \<Rightarrow> ([], LastResort, None, Inl e)
      | None \<Rightarrow>
          (let ev1 = (if CONTROLLER_PYTHON_WARNING env \<and> \<not> PY38_MIN env then [Deprecated] else [])
                       @ [Debug ''starting run''] in
           case resolve_alias me of
             Inl e \<Rightarrow> (ev1, Display, None, Inl e)
           | Inr (sub, myclass) \<Rightarrow>
               (case load_cli (import_cli env) me sub myclass of
                  Inl e \<Rightarrow> (ev1, Display, None, Inl e)
                | Inr mycli \<Rightarrow>
                    (let ev2 = ev1 @ ensure_state_directory (b_ansible_dir env) (os_mkdir env) in
                     case to_text_args (to_text env) (argv env) of
                       None \<Rightarrow>
                         (ev2 @ [ErrorMsg Display
                                   ''Command line args are not in utf-8, unable to continue.  Ansible currently only understands utf-8'',
                                 ArgsTraceback],
                          Display, None, Inr 6)
                     | Some args \<Rightarrow>
                         (case mycli args of
                            Inl e \<Rightarrow> (ev2 @ [Construct args], Display, None, Inl e)
                          | Inr cli \<Rightarrow>
                              (case run cli of
                                 Inl e \<Rightarrow> (ev2 @ [Construct args, RunCLI], Display, Some cli, Inl e)
                               | Inr code \<Rightarrow>
                                   (ev2 @ [Construct args, RunCLI], Display, Some cli, Inr code)))))))"

definition show_traceback :: "'a env \<Rightarrow> bool" where
  \<comment> \<open>The test of line 154, \<^verbatim>\<open>not have_cli_options or context.CLIARGS['verbosity'] > 2\<close>:
      the subscript is evaluated only when \<^verbatim>\<open>context.CLIARGS\<close> is not empty.\<close>
  "show_traceback env = (case CLIARGS env of None \<Rightarrow> True | Some v \<Rightarrow> v > 2)"

definition unexpected :: "'a env \<Rightarrow> event list \<Rightarrow> sink \<Rightarrow> exc \<Rightarrow> event list \<times> outcome" where
  \<comment> \<open>The \<^verbatim>\<open>except Exception\<close> arm, lines 144 to 165. \<^verbatim>\<open>LastResort\<close> has no method
      \<^verbatim>\<open>vvv\<close>, so calling it raises inside the handler.\<close>
  "unexpected env evs d e =
     (if DEFAULT_DEBUG env then (evs, Uncaught e)
      else
        (let evs1 = evs @ [ErrorMsg d (''Unexpected Exception, this is probably a bug: '' @ msg e)] in
         if show_traceback env then
           (case orig_exc e of
              None \<Rightarrow> (evs1 @ [Traceback d e False], Exit 250)
            | Some (ty, why) \<Rightarrow>
                if d = LastResort
                then (evs1, Uncaught (attribute_error ''LastResort object has no attribute vvv''))
                else
                  (evs1 @ [VVV (''\<newline>exception type: '' @ ty)]
                        @ (if msg e \<noteq> why then [VVV (''\<newline>original msg: '' @ why)] else [])
                        @ [Traceback d e False],
                   Exit 250))
         else
           (evs1 @ [DisplayMsg d ''to see the full traceback, use -vvv'' False, Traceback d e True],
            Exit 250)))"

definition translate ::
  "'a env \<Rightarrow> event list \<times> sink \<times> cli_obj option \<times> (exc + int) \<Rightarrow> event list \<times> outcome" where
  \<comment> \<open>The \<^verbatim>\<open>except\<close> clauses of lines 131 to 165, in their order, and \<^verbatim>\<open>sys.exit\<close>.\<close>
  "translate env r =
     (case r of
        (evs, d, cli, Inr code) \<Rightarrow> (evs, Exit code)
      | (evs, d, cli, Inl e) \<Rightarrow>
          if kind e = AnsibleOptionsError then
            (case cli of
               None \<Rightarrow> (evs, Uncaught (attribute_error ''NoneType object has no attribute parser''))
             | Some c \<Rightarrow>
                 if parser_available c then (evs @ [PrintHelp, ErrorMsg d (msg e)], Exit 5)
                 else (evs, Uncaught (attribute_error ''NoneType object has no attribute print_help'')))
          else if kind e = AnsibleParserError then (evs @ [ErrorMsg d (msg e)], Exit 4)
          else if kind e = AnsibleError then (evs @ [ErrorMsg d (msg e)], Exit 1)
          else if kind e = KeyboardInterrupt then (evs @ [ErrorMsg d ''User interrupted execution''], Exit 99)
          else if kind e = OtherBaseException then (evs, Uncaught e)
          else unexpected env evs d e)"

definition main :: "'a env \<Rightarrow> event list \<times> outcome" where
  \<comment> \<open>The whole \<^verbatim>\<open>__main__\<close> block: the guarded imports of lines 62 to 67, then the
      pipeline and its handlers.\<close>
  "main env =
     (case constants_import env of
        Some e \<Rightarrow>
          if kind e = AnsibleOptionsError then ([ErrorMsg LastResort (msg e)], Exit 5)
          else ([], Uncaught e)
      | None \<Rightarrow> translate env (pipeline env))"

fun unclassified_kind :: "exc_kind \<Rightarrow> bool" where
  "unclassified_kind AnsibleOptionsError = False"
| "unclassified_kind AnsibleParserError = False"
| "unclassified_kind AnsibleError = False"
| "unclassified_kind KeyboardInterrupt = False"
| "unclassified_kind OtherBaseException = False"
| "unclassified_kind ImportError = True"
| "unclassified_kind IndexError = True"
| "unclassified_kind AttributeError = True"
| "unclassified_kind UnicodeError = True"
| "unclassified_kind OtherException = True"

definition unclassified :: "exc \<Rightarrow> bool" where
  \<comment> \<open>The exceptions that only the \<^verbatim>\<open>except Exception\<close> clause catches.\<close>
  "unclassified e = unclassified_kind (kind e)"

fun is_invocation :: "event \<Rightarrow> bool" where
  \<comment> \<open>The implementation is constructed or run.\<close>
  "is_invocation (Construct args) = True"
| "is_invocation RunCLI = True"
| "is_invocation ev = False"

section \<open>Sample environments\<close>

definition ok_cli :: "string list \<Rightarrow> exc + cli_obj" where
  "ok_cli args = Inr \<lparr>parser_available = True, run = Inr 0\<rparr>"

definition env0 :: "string env" where
  \<comment> \<open>A run in which every collaborator succeeds.\<close>
  "env0 =
     \<lparr>constants_import = None, CONTROLLER_PYTHON_WARNING = False, PY38_MIN = True,
      DEFAULT_DEBUG = False, CLIARGS = None, argv0 = ''/usr/bin/ansible-playbook-2.9'',
      argv = [''/usr/bin/ansible-playbook-2.9'', ''site.yml''], to_text = Some,
      Display_init = None, import_cli = (\<lambda>m c. Inr ok_cli), os_mkdir = None,
      b_ansible_dir = ''/root/.ansible''\<rparr>"

definition env_index_error :: "string env" where
  \<comment> \<open>Started through a link named \<open>2.9\<close>.\<close>
  "env_index_error = env0\<lparr>argv0 := ''/usr/bin/2.9'', argv := [''/usr/bin/2.9'']\<rparr>"

definition env_missing_module :: "string env" where
  \<comment> \<open>Started as \<open>ansible-foo\<close> where no module \<open>ansible.cli.foo\<close> exists.\<close>
  "env_missing_module =
     env0\<lparr>argv0 := ''ansible-foo'', argv := [''ansible-foo''],
          import_cli := (\<lambda>m c. Inl (module_not_found m))\<rparr>"

definition env_options_error :: "string env" where
  \<comment> \<open>The constructor \<^verbatim>\<open>mycli(args)\<close> raises \<^verbatim>\<open>AnsibleOptionsError\<close>.\<close>
  "env_options_error =
     env0\<lparr>import_cli := (\<lambda>m c. Inr (\<lambda>args. Inl (Exc AnsibleOptionsError ''bad option'' None)))\<rparr>"

definition env_undecodable_arg :: "string env" where
  \<comment> \<open>Started as \<open>ansible-playbook\<close> with one argument, the single byte 0xFF.\<close>
  "env_undecodable_arg =
     env0\<lparr>argv0 := ''ansible-playbook'', argv := [''ansible-playbook'', [CHR 0xFF]],
          to_text := py3_to_text\<rparr>"

definition wrapped_failure :: exc where
  \<comment> \<open>A failure that is no \<^verbatim>\<open>AnsibleError\<close> and carries an \<^verbatim>\<open>orig_exc\<close>.\<close>
  "wrapped_failure =
     Exc OtherException ''display failed''
       (Some (''<class '' @ [CHR 0x27] @ ''OSError'' @ [CHR 0x27] @ ''>'', ''no terminal''))"

definition env_display_fails :: "string env" where
  \<comment> \<open>\<^verbatim>\<open>Display()\<close> at line 75 raises \<open>wrapped_failure\<close>; the debug flag is unset.\<close>
  "env_display_fails = env0\<lparr>Display_init := Some wrapped_failure\<rparr>"

definition failing_cli :: "exc \<Rightarrow> string list \<Rightarrow> exc + cli_obj" where
  \<comment> \<open>An implementation whose \<^verbatim>\<open>run()\<close> raises \<open>e\<close>.\<close>
  "failing_cli e args = Inr \<lparr>parser_available = True, run = Inl e\<rparr>"

definition env_run_fails :: "bool \<Rightarrow> exc \<Rightarrow> string env" where
  \<comment> \<open>\<^verbatim>\<open>run()\<close> raises \<open>e\<close> after the options were parsed with verbosity 1; \<open>dbg\<close> is
      the debug flag.\<close>
  "env_run_fails dbg e =
     env0\<lparr>DEFAULT_DEBUG := dbg, CLIARGS := Some 1, import_cli := (\<lambda>m c. Inr (failing_cli e))\<rparr>"

definition boom :: exc where
  "boom = Exc OtherException ''boom'' None"

section \<open>Facts about the primitives\<close>

lemma str_split_no_sep: "sep \<notin> set s \<Longrightarrow> str_split sep s = [s]"
  by (induction s) auto

lemma str_split_append:
  "sep \<notin> set s \<Longrightarrow> str_split sep (s @ sep # r) = s # str_split sep r"
  by (induction s) auto

lemma str_split_not_Nil: "str_split sep s \<noteq> []"
  by (induction s) (auto split: list.splits)

section \<open>Facts about the dispatcher\<close>

lemma main_pipeline: "constants_import env = None \<Longrightarrow> main env = translate env (pipeline env)"
  by (simp add: main_def)

lemma translate_unclassified:
  "unclassified e \<Longrightarrow> translate env (evs, d, cli, Inl e) = unexpected env evs d e"
  by (cases "kind e") (simp_all add: translate_def unclassified_def)

lemma unexpected_debug: "DEFAULT_DEBUG env \<Longrightarrow> unexpected env evs d e = (evs, Uncaught e)"
  by (simp add: unexpected_def)

lemma unexpected_exit_250:
  "\<not> DEFAULT_DEBUG env \<Longrightarrow> d = Display \<or> orig_exc e = None \<Longrightarrow>
   snd (unexpected env evs d e) = Exit 250"
  by (auto simp: unexpected_def Let_def split: option.splits)

lemma pipeline_alias_error:
  "Display_init env = None \<Longrightarrow> resolve_alias (basename (argv0 env)) = Inl e \<Longrightarrow>
   \<exists>evs. pipeline env = (evs, Display, None, Inl e)"
  by (simp add: pipeline_def Let_def)

lemma resolve_alias_empty_last:
  "last (str_split CHR ''-'' me) = [] \<Longrightarrow> resolve_alias me = Inl string_index_error"
  using str_split_not_Nil [of "CHR ''-''" me]
  by (cases "str_split CHR ''-'' me") (simp_all add: resolve_alias_def Let_def)

lemma resolve_alias_single_digit_token:
  "str_split CHR ''-'' me = [t] \<Longrightarrow> t \<noteq> [] \<Longrightarrow> isdigit (hd t) \<Longrightarrow>
   resolve_alias me = Inl list_index_error"
  by (cases t) (simp_all add: resolve_alias_def Let_def)

lemma pipeline_env_run_fails:
  "pipeline (env_run_fails dbg e) =
     ([Debug ''starting run'',
       Debug (''Created the '' @ [CHR 0x27] @ ''/root/.ansible'' @ [CHR 0x27] @ '' directory''),
       Construct [''/usr/bin/ansible-playbook-2.9'', ''site.yml''], RunCLI],
      Display, Some \<lparr>parser_available = True, run = Inl e\<rparr>, Inl e)"
  by (simp add: pipeline_def env_run_fails_def env0_def basename_def resolve_alias_def
      isdigit_def load_cli_def failing_cli_def ensure_state_directory_def Let_def)

lemma snoc_neq_Cons: "a \<noteq> b \<Longrightarrow> xs @ [a] \<noteq> b # xs"
  by (induction xs) auto

lemma not_endswith_quoted: "\<not> endswith (p @ sub @ [CHR 0x27]) (CHR '' '' # sub)"
proof -
  have "take (length (CHR '' '' # sub)) (rev (p @ sub @ [CHR 0x27])) = CHR 0x27 # rev sub"
    by simp
  moreover have "rev (CHR '' '' # sub) = rev sub @ [CHR '' '']"
    by simp
  moreover have "rev sub @ [CHR '' ''] \<noteq> CHR 0x27 # rev sub"
    by (rule snoc_neq_Cons) simp
  ultimately show ?thesis
    unfolding endswith_def by metis
qed

lemma load_cli_not_implemented:
  "imp (''ansible.cli.'' @ sub) myclass = Inl e \<Longrightarrow> kind e = ImportError \<Longrightarrow>
   endswith (msg e) (CHR '' '' # sub) \<Longrightarrow>
   load_cli imp me sub myclass
     = Inl (Exc AnsibleError (''Ansible sub-program not implemented: '' @ me) None)"
  by (simp add: load_cli_def)

lemma load_cli_propagates:
  "imp (''ansible.cli.'' @ sub) myclass = Inl e \<Longrightarrow>
   kind e \<noteq> ImportError \<or> \<not> endswith (msg e) (CHR '' '' # sub) \<Longrightarrow>
   load_cli imp me sub myclass = Inl e"
  by (auto simp: load_cli_def)

lemma resolve_alias_unknown:
  "CHR ''-'' \<notin> set me \<Longrightarrow> me \<noteq> [] \<Longrightarrow> \<not> isdigit (hd me) \<Longrightarrow> me \<noteq> ''ansible'' \<Longrightarrow>
   resolve_alias me = Inl (Exc AnsibleError (''Unknown Ansible alias: '' @ me) None)"
proof -
  assume h: "CHR ''-'' \<notin> set me" "me \<noteq> []" "\<not> isdigit (hd me)" "me \<noteq> ''ansible''"
  from h(2) obtain c cs where m: "me = c # cs"
    by (cases me) auto
  from h(1) have sp: "str_split CHR ''-'' me = [me]"
    by (rule str_split_no_sep)
  show ?thesis
    unfolding resolve_alias_def sp using h(3,4) m by simp
qed

lemma translate_options_error_with_parser:
  "kind e = AnsibleOptionsError \<Longrightarrow> parser_available c \<Longrightarrow>
   translate env (evs, d, Some c, Inl e) = (evs @ [PrintHelp, ErrorMsg d (msg e)], Exit 5)"
  by (simp add: translate_def)

lemma main_options_error_at_import:
  "constants_import env = Some e \<Longrightarrow> kind e = AnsibleOptionsError \<Longrightarrow>
   main env = ([ErrorMsg LastResort (msg e)], Exit 5)"
  by (simp add: main_def)

lemma to_text_args_None: "a \<in> set as \<Longrightarrow> f a = None \<Longrightarrow> to_text_args f as = None"
  by (induction as) (auto split: option.splits)

lemma ensure_state_directory_no_invocation:
  "filter is_invocation (ensure_state_directory dir r) = []"
  by (simp add: ensure_state_directory_def split: option.splits prod.splits)

lemma unexpected_no_invocation:
  "filter is_invocation (fst (unexpected env evs d e)) = filter is_invocation evs"
  by (simp add: unexpected_def Let_def split: option.splits prod.splits)

lemma translate_no_invocation:
  "filter is_invocation (fst (translate env (evs, d, cli, r))) = filter is_invocation evs"
  by (simp add: translate_def unexpected_no_invocation split: sum.splits option.splits)

lemma pipeline_no_invocation:
  "to_text_args (to_text env) (argv env) = None \<Longrightarrow>
   filter is_invocation (fst (pipeline env)) = []"
  by (simp add: pipeline_def Let_def ensure_state_directory_no_invocation
      split: option.splits sum.splits prod.splits)

lemma main_no_invocation:
  assumes "to_text_args (to_text env) (argv env) = None"
  shows "filter is_invocation (fst (main env)) = []"
proof (cases "constants_import env")
  case None
  obtain evs d cli r where p: "pipeline env = (evs, d, cli, r)"
    by (cases "pipeline env") auto
  from assms have "filter is_invocation evs = []"
    using pipeline_no_invocation [of env] p by simp
  with None p show ?thesis
    by (simp add: main_pipeline translate_no_invocation)
next
  case (Some e)
  then show ?thesis by (simp add: main_def)
qed

lemma translate_snd_events:
  "snd (translate env (evs, x)) = snd (translate env (evs', x))"
  by (cases x)
    (auto simp: translate_def unexpected_def Let_def split: sum.splits option.splits prod.splits)

lemma translate_os_mkdir: "translate (env\<lparr>os_mkdir := r\<rparr>) x = translate env x"
  by (simp add: translate_def unexpected_def show_traceback_def fun_eq_iff
      split: prod.splits sum.splits)

lemma pipeline_os_mkdir: "snd (pipeline (env\<lparr>os_mkdir := r\<rparr>)) = snd (pipeline env)"
  by (simp add: pipeline_def Let_def split: option.splits sum.splits prod.splits)

lemma main_os_mkdir: "snd (main (env\<lparr>os_mkdir := r\<rparr>)) = snd (main env)"
proof (cases "constants_import env")
  case None
  obtain evs x where p: "pipeline env = (evs, x)"
    by (cases "pipeline env") auto
  obtain evs' x' where q: "pipeline (env\<lparr>os_mkdir := r\<rparr>) = (evs', x')"
    by (cases "pipeline (env\<lparr>os_mkdir := r\<rparr>)") auto
  from pipeline_os_mkdir [where env = env and r = r] p q have "x' = x"
    by simp
  with None p q show ?thesis
    using translate_snd_events [of env evs' x evs]
    by (simp add: main_def translate_os_mkdir)
next
  case (Some e)
  then show ?thesis by (simp add: main_def)
qed

lemma unclassified_outcome:
  assumes "constants_import env = None" and "pipeline env = (evs, d, cli, Inl e)"
    and "unclassified e"
  shows "(DEFAULT_DEBUG env \<longrightarrow> main env = (evs, Uncaught e))
         \<and> (\<not> DEFAULT_DEBUG env \<longrightarrow> d = Display \<or> orig_exc e = None \<longrightarrow> snd (main env) = Exit 250)"
  using assms
  by (simp add: main_pipeline translate_unclassified unexpected_debug unexpected_exit_250)

lemma unicode_error_handled:
  assumes "to_text_args (to_text env) (argv env) = None"
  shows "filter is_invocation (fst (main env)) = []
         \<and> (constants_import env = None \<longrightarrow> Display_init env = None \<longrightarrow>
            resolve_alias (basename (argv0 env)) = Inr (sub, myclass) \<longrightarrow>
            load_cli (import_cli env) (basename (argv0 env)) sub myclass = Inr mycli \<longrightarrow>
            snd (main env) = Exit 6)"
proof -
  from assms have a: "filter is_invocation (fst (main env)) = []"
    by (rule main_no_invocation)
  have b: "snd (main env) = Exit 6"
    if "constants_import env = None" and "Display_init env = None"
      and "resolve_alias (basename (argv0 env)) = Inr (sub, myclass)"
      and "load_cli (import_cli env) (basename (argv0 env)) sub myclass = Inr mycli"
    using that assms by (simp add: main_pipeline pipeline_def translate_def Let_def)
  from a b show ?thesis by blast
qed

lemma py3_to_text_args: "to_text_args py3_to_text as = Some as"
  by (induction as) (simp_all add: py3_to_text_def)

section \<open>Claims about alias resolution\<close>

text \<open>
  Claim C1. For every basename \<open>prefix-name-digits\<close> whose three tokens contain no hyphen
  and whose last token begins with a digit, alias resolution yields \<open>name\<close> (and the class
  name built from it), whatever the digit string is; and for the basename \<open>ansible\<close> it
  yields the fixed default \<open>adhoc\<close>.
\<close>

theorem resolve_alias_versioned:
  assumes "CHR ''-'' \<notin> set prefix" and "CHR ''-'' \<notin> set name" and "CHR ''-'' \<notin> set digits"
    and "digits \<noteq> []" and "isdigit (hd digits)"
  shows "resolve_alias (prefix @ ''-'' @ name @ ''-'' @ digits) = Inr (name, capitalize name @ ''CLI'')
         \<and> resolve_alias ''ansible'' = Inr (''adhoc'', ''AdHocCLI'')"
proof -
  from assms(4) obtain c cs where d: "digits = c # cs" by (cases digits) auto
  with assms(5) have c: "isdigit c" by simp
  have sp: "str_split CHR ''-'' (prefix @ ''-'' @ name @ ''-'' @ digits) = [prefix, name, digits]"
    using assms(1,2,3) by (simp add: str_split_append str_split_no_sep)
  have a: "resolve_alias (prefix @ ''-'' @ name @ ''-'' @ digits) = Inr (name, capitalize name @ ''CLI'')"
    unfolding resolve_alias_def sp using c d by simp
  have b: "resolve_alias ''ansible'' = Inr (''adhoc'', ''AdHocCLI'')"
    by (simp add: resolve_alias_def isdigit_def)
  from a b show ?thesis by simp
qed

theorem resolve_alias_versioned_witness:
  "resolve_alias ''ansible-playbook-2.9'' = Inr (''playbook'', ''PlaybookCLI'')
   \<and> resolve_alias ''ansible'' = Inr (''adhoc'', ''AdHocCLI'')"
proof -
  have "resolve_alias (''ansible'' @ ''-'' @ ''playbook'' @ ''-'' @ ''2.9'')
          = Inr (''playbook'', capitalize ''playbook'' @ ''CLI'')
        \<and> resolve_alias ''ansible'' = Inr (''adhoc'', ''AdHocCLI'')"
    by (rule resolve_alias_versioned) (simp_all add: isdigit_def)
  then show ?thesis
    by (simp add: capitalize_def upper_char_def lower_char_def ascii_lowercase_def
        ascii_uppercase_def latin1_lowercase_def latin1_uppercase_def)
qed

text \<open>
  Claim C10. When the last token of the basename is empty (a basename ending in a hyphen,
  or the empty basename), or when the basename is a single token that begins with a digit
  (such as \<open>2.9\<close>), the alias step raises \<^verbatim>\<open>IndexError\<close>; the exception reaches the
  \<^verbatim>\<open>except Exception\<close> arm, and with the debug flag unset the process exits with code 250,
  not with the unknown-alias error and code 1.
\<close>

theorem alias_index_error_exit_250:
  assumes "constants_import env = None" and "Display_init env = None" and "\<not> DEFAULT_DEBUG env"
    and "last (str_split CHR ''-'' (basename (argv0 env))) = []
         \<or> (str_split CHR ''-'' (basename (argv0 env)) = [t] \<and> t \<noteq> [] \<and> isdigit (hd t))"
  shows "(resolve_alias (basename (argv0 env)) = Inl string_index_error
          \<or> resolve_alias (basename (argv0 env)) = Inl list_index_error)
         \<and> snd (main env) = Exit 250"
proof -
  from assms(4) obtain e where r: "resolve_alias (basename (argv0 env)) = Inl e"
    and e: "e = string_index_error \<or> e = list_index_error"
    using resolve_alias_empty_last resolve_alias_single_digit_token by blast
  from e have u: "unclassified e" and o: "orig_exc e = None"
    by (auto simp: unclassified_def string_index_error_def list_index_error_def)
  from pipeline_alias_error [OF assms(2) r] obtain evs
    where p: "pipeline env = (evs, Display, None, Inl e)" ..
  have "main env = unexpected env evs Display e"
    using assms(1) p u by (simp add: main_pipeline translate_unclassified)
  with assms(3) have "snd (main env) = Exit 250"
    by (simp add: unexpected_exit_250)
  with r e show ?thesis by auto
qed

theorem alias_index_error_exit_250_witness:
  "(resolve_alias (basename (argv0 env_index_error)) = Inl string_index_error
    \<or> resolve_alias (basename (argv0 env_index_error)) = Inl list_index_error)
   \<and> snd (main env_index_error) = Exit 250"
proof (rule alias_index_error_exit_250 [where t = "''2.9''"])
  show "constants_import env_index_error = None"
    by (simp add: env_index_error_def env0_def)
  show "Display_init env_index_error = None"
    by (simp add: env_index_error_def env0_def)
  show "\<not> DEFAULT_DEBUG env_index_error"
    by (simp add: env_index_error_def env0_def)
  show "last (str_split CHR ''-'' (basename (argv0 env_index_error))) = []
        \<or> (str_split CHR ''-'' (basename (argv0 env_index_error)) = [''2.9'']
            \<and> ''2.9'' \<noteq> [] \<and> isdigit (hd ''2.9''))"
    by (simp add: env_index_error_def env0_def basename_def isdigit_def)
qed

text \<open>
  Claim C5 says that every basename without a second component that is not \<open>ansible\<close>
  fails with the unknown-alias error and exit code 1. The code at the basename \<open>2.9\<close>: the
  only token begins with a digit and is dropped, \<^verbatim>\<open>target[0]\<close> then raises
  \<^verbatim>\<open>IndexError\<close>, and the run ends in the \<^verbatim>\<open>except Exception\<close> arm with exit code 250.
\<close>

theorem version_only_basename_not_unknown_alias:
  "resolve_alias ''2.9'' = Inl list_index_error \<and> snd (main env_index_error) = Exit 250"
  by (simp add: resolve_alias_def isdigit_def main_def env_index_error_def env0_def pipeline_def
      basename_def translate_def unexpected_def list_index_error_def show_traceback_def Let_def)

text \<open>
  Claim C8 says that alias resolution either returns an alias or fails with the
  unknown-alias error, and in no other way. The code at the basename \<open>ansible-\<close> and at the
  empty basename: the last token is empty and \<^verbatim>\<open>target[-1][0]\<close> raises \<^verbatim>\<open>IndexError\<close>.
\<close>

theorem resolve_alias_other_failure:
  "resolve_alias ''ansible-'' = Inl string_index_error
   \<and> resolve_alias [] = Inl string_index_error
   \<and> kind string_index_error = IndexError"
  by (simp add: resolve_alias_def string_index_error_def)

section \<open>Claims about the unclassified arm\<close>

text \<open>
  Claim C6 says that an unclassified failure of the pipeline is re-raised when the debug
  flag is set and gives exit code 250 when it is unset. The code when \<^verbatim>\<open>Display()\<close> at
  line 75 raises a failure that carries \<^verbatim>\<open>orig_exc\<close>, with the debug flag unset: the
  handler prints the summary through \<^verbatim>\<open>LastResort.error\<close>, then line 157 calls
  \<^verbatim>\<open>display.vvv\<close>, which \<^verbatim>\<open>LastResort\<close> does not have; the \<^verbatim>\<open>AttributeError\<close> leaves the
  script and no exit code 250 is produced.
\<close>

theorem unclassified_failure_on_fallback_sink:
  "unclassified wrapped_failure
   \<and> \<not> DEFAULT_DEBUG env_display_fails
   \<and> pipeline env_display_fails = ([], LastResort, None, Inl wrapped_failure)
   \<and> main env_display_fails
       = ([ErrorMsg LastResort ''Unexpected Exception, this is probably a bug: display failed''],
          Uncaught (attribute_error ''LastResort object has no attribute vvv''))
   \<and> snd (main env_display_fails) \<noteq> Exit 250"
  by (simp add: unclassified_def wrapped_failure_def env_display_fails_def env0_def pipeline_def
      main_def translate_def unexpected_def show_traceback_def Let_def)

text \<open>
  Claim C7, as stated, fails: started through a link named \<open>2.9\<close> with no option given,
  the debug flag unset, the alias step raises \<^verbatim>\<open>IndexError\<close> before any option is parsed;
  \<^verbatim>\<open>context.CLIARGS\<close> is empty, line 154 takes its first branch, and the full traceback
  is handed to \<^verbatim>\<open>display.display\<close> with \<^verbatim>\<open>log_only=False\<close>: it is displayed.
\<close>

theorem unclassified_low_verbosity_counterexample:
  "\<not> DEFAULT_DEBUG env_index_error
   \<and> CLIARGS env_index_error = None
   \<and> main env_index_error
       = ([Debug ''starting run'',
           ErrorMsg Display ''Unexpected Exception, this is probably a bug: list index out of range'',
           Traceback Display list_index_error False],
          Exit 250)"
  by (simp add: main_def env_index_error_def env0_def pipeline_def basename_def resolve_alias_def
      isdigit_def translate_def unexpected_def list_index_error_def show_traceback_def Let_def)

text \<open>
  Claim C7, amended. With the debug flag unset, the \<^verbatim>\<open>Display\<close> object in place and the
  run options parsed (\<^verbatim>\<open>context.CLIARGS\<close> not empty) with a verbosity of at most 2, an
  unclassified failure of the pipeline makes the dispatcher print the one-line summary
  through \<^verbatim>\<open>display.error\<close>, print the hint to use \<^verbatim>\<open>-vvv\<close>, hand the full traceback to
  \<^verbatim>\<open>display.display\<close> with \<^verbatim>\<open>log_only=True\<close> (so it goes to the log and is not shown), and
  exit with code 250; nothing else is emitted.
\<close>

theorem unclassified_low_verbosity:
  assumes "constants_import env = None" and "pipeline env = (evs, Display, cli, Inl e)"
    and "unclassified e" and "\<not> DEFAULT_DEBUG env" and "CLIARGS env = Some v" and "v \<le> 2"
  shows "main env =
           (evs @ [ErrorMsg Display (''Unexpected Exception, this is probably a bug: '' @ msg e),
                   DisplayMsg Display ''to see the full traceback, use -vvv'' False,
                   Traceback Display e True],
            Exit 250)"
  using assms
  by (simp add: main_pipeline translate_unclassified unexpected_def show_traceback_def)

theorem unclassified_low_verbosity_witness:
  "main (env_run_fails False boom) =
     (fst (pipeline (env_run_fails False boom))
        @ [ErrorMsg Display ''Unexpected Exception, this is probably a bug: boom'',
           DisplayMsg Display ''to see the full traceback, use -vvv'' False,
           Traceback Display boom True],
      Exit 250)"
proof -
  have p: "pipeline (env_run_fails False boom)
             = (fst (pipeline (env_run_fails False boom)), Display,
                Some \<lparr>parser_available = True, run = Inl boom\<rparr>, Inl boom)"
    by (simp add: pipeline_env_run_fails)
  have "main (env_run_fails False boom) =
          (fst (pipeline (env_run_fails False boom))
             @ [ErrorMsg Display (''Unexpected Exception, this is probably a bug: '' @ msg boom),
                DisplayMsg Display ''to see the full traceback, use -vvv'' False,
                Traceback Display boom True],
           Exit 250)"
  proof (rule unclassified_low_verbosity [OF _ p, where v = 1])
    show "constants_import (env_run_fails False boom) = None"
      by (simp add: env_run_fails_def env0_def)
    show "unclassified boom"
      by (simp add: unclassified_def boom_def)
    show "\<not> DEFAULT_DEBUG (env_run_fails False boom)"
      by (simp add: env_run_fails_def env0_def)
    show "CLIARGS (env_run_fails False boom) = Some 1"
      by (simp add: env_run_fails_def env0_def)
    show "(1::int) \<le> 2" by simp
  qed
  then show ?thesis by (simp add: boom_def)
qed

section \<open>Claims about the loader, the options error and the arguments\<close>

text \<open>
  Claim C3 says that an alias whose module does not exist fails with the
  not-implemented error and exit code 1. The code under Python 3, for every alias: the
  message of the import failure is \<open>No module named 'ansible.cli.<alias>'\<close>, which ends
  with a quote and so never ends with a space followed by the alias; the loader re-raises
  the \<^verbatim>\<open>ImportError\<close>, and the run started as \<open>ansible-foo\<close> ends in the
  \<^verbatim>\<open>except Exception\<close> arm with exit code 250.
\<close>

theorem missing_module_reraised:
  "load_cli (\<lambda>m c. Inl (module_not_found m)) me sub myclass
     = Inl (module_not_found (''ansible.cli.'' @ sub))
   \<and> snd (main env_missing_module) = Exit 250"
proof -
  have "msg (module_not_found (''ansible.cli.'' @ sub))
          = (''No module named '' @ [CHR 0x27] @ ''ansible.cli.'') @ sub @ [CHR 0x27]"
    by (simp add: module_not_found_def)
  then have "\<not> endswith (msg (module_not_found (''ansible.cli.'' @ sub))) (CHR '' '' # sub)"
    using not_endswith_quoted by metis
  then have a: "load_cli (\<lambda>m c. Inl (module_not_found m)) me sub myclass
                  = Inl (module_not_found (''ansible.cli.'' @ sub))"
    by (simp add: load_cli_def)
  have b: "snd (main env_missing_module) = Exit 250"
    by (simp add: main_def env_missing_module_def env0_def pipeline_def basename_def
        resolve_alias_def isdigit_def load_cli_def module_not_found_def endswith_def
        translate_def unexpected_def show_traceback_def Let_def)
  from a b show ?thesis by simp
qed

text \<open>
  Claim C4 says that every options error ends the run with exit code 5, also when it is
  raised before the implementation object exists. The code when the constructor
  \<^verbatim>\<open>mycli(args)\<close> raises \<^verbatim>\<open>AnsibleOptionsError\<close>: \<^verbatim>\<open>cli\<close> is still \<^verbatim>\<open>None\<close>, the handler's
  \<^verbatim>\<open>cli.parser.print_help()\<close> raises \<^verbatim>\<open>AttributeError\<close>, and that exception leaves the
  script: no exit code 5.
\<close>

theorem options_error_before_cli_escapes:
  "snd (main env_options_error)
     = Uncaught (attribute_error ''NoneType object has no attribute parser'')"
  by (simp add: main_def env_options_error_def env0_def pipeline_def basename_def
      resolve_alias_def isdigit_def load_cli_def translate_def Let_def)

text \<open>
  Claim C2 says that an argument that cannot be decoded as UTF-8 ends the run with exit
  code 6 and that the implementation is neither constructed nor run. The code under
  Python 3, started as \<open>ansible-playbook\<close> with the argument 0xFF, a byte that occurs in no
  UTF-8 text: \<^verbatim>\<open>to_text\<close> returns the \<^verbatim>\<open>str\<close> of \<^verbatim>\<open>sys.argv\<close> unchanged, no
  \<^verbatim>\<open>UnicodeError\<close> is raised, the handler of lines 123 to 126 is not entered, the
  implementation is constructed with the argument and run, and the exit code is the one
  \<^verbatim>\<open>run()\<close> returns.
\<close>

theorem undecodable_argument_is_run:
  "list_ex invalid_utf8_byte (argv env_undecodable_arg ! 1)
   \<and> filter is_invocation (fst (main env_undecodable_arg))
       = [Construct [''ansible-playbook'', [CHR 0xFF]], RunCLI]
   \<and> snd (main env_undecodable_arg) = Exit 0
   \<and> snd (main env_undecodable_arg) \<noteq> Exit 6"
  by (simp add: invalid_utf8_byte_def env_undecodable_arg_def env0_def py3_to_text_def main_def
      pipeline_def basename_def resolve_alias_def isdigit_def load_cli_def ok_cli_def
      ensure_state_directory_def translate_def Let_def)

section \<open>Claims about the state directory\<close>

text \<open>
  Claim C9. Whatever \<^verbatim>\<open>os.mkdir\<close> does, the outcome of the run is the same, so preparing the
  state directory never ends the process. When the creation fails with \<^verbatim>\<open>EEXIST\<close> nothing
  is emitted; any other failure emits exactly one warning. On a file system, a call on a
  path that exists changes nothing and emits nothing, a call that is not refused creates
  the path, and so a second call after a call that left the directory in place changes
  nothing and emits no warning.
\<close>

theorem state_directory_never_fatal:
  "snd (main (env\<lparr>os_mkdir := r\<rparr>)) = snd (main env)
   \<and> ensure_state_directory p (Some (EEXIST, detail)) = []
   \<and> (errno \<noteq> EEXIST \<longrightarrow>
        ensure_state_directory p (Some (errno, detail))
          = [Warning (''Failed to create the directory '' @ [CHR 0x27] @ p @ [CHR 0x27]
                        @ '': '' @ detail)])
   \<and> (p \<in> dirs \<longrightarrow> prepare fault dirs p = (dirs, []))
   \<and> (fault p = None \<longrightarrow> p \<in> fst (prepare fault dirs p))
   \<and> (p \<in> fst (prepare fault dirs p) \<longrightarrow>
        prepare fault (fst (prepare fault dirs p)) p = (fst (prepare fault dirs p), []))"
proof -
  have e: "p \<in> ds \<Longrightarrow> prepare fault ds p = (ds, [])" for ds
    by (simp add: prepare_def fs_mkdir_def ensure_state_directory_def)
  have c: "fault p = None \<Longrightarrow> p \<in> fst (prepare fault dirs p)"
    by (simp add: prepare_def fs_mkdir_def)
  show ?thesis
    using e c by (simp add: main_os_mkdir ensure_state_directory_def)
qed

theorem state_directory_never_fatal_witness:
  "snd (main (env0\<lparr>os_mkdir := Some (13, ''Permission denied'')\<rparr>)) = snd (main env0)
   \<and> ensure_state_directory ''/root/.ansible'' (Some (13, ''Permission denied''))
       = [Warning (''Failed to create the directory '' @ [CHR 0x27] @ ''/root/.ansible''
                     @ [CHR 0x27] @ '': Permission denied'')]
   \<and> prepare (\<lambda>p. None) {''/root/.ansible''} ''/root/.ansible'' = ({''/root/.ansible''}, [])
   \<and> ''/root/.ansible'' \<in> fst (prepare (\<lambda>p. None) {} ''/root/.ansible'')
   \<and> prepare (\<lambda>p. None) (fst (prepare (\<lambda>p. None) {} ''/root/.ansible'')) ''/root/.ansible''
        = (fst (prepare (\<lambda>p. None) {} ''/root/.ansible''), [])"
proof -
  have n: "(13::nat) \<noteq> EEXIST"
    by (simp add: EEXIST_def)
  have i: "''/root/.ansible'' \<in> {''/root/.ansible''}"
    by simp
  have f: "(\<lambda>p::string. None :: (nat \<times> string) option) ''/root/.ansible'' = None"
    by simp
  note t1 = state_directory_never_fatal [where env = env0
      and r = "Some (13, ''Permission denied'')" and p = "''/root/.ansible''"
      and detail = "''Permission denied''" and errno = 13
      and dirs = "{''/root/.ansible''}" and fault = "\<lambda>p. None"]
  note t2 = state_directory_never_fatal [where env = env0
      and r = "Some (13, ''Permission denied'')" and p = "''/root/.ansible''"
      and detail = "''Permission denied''" and errno = 13
      and dirs = "{}" and fault = "\<lambda>p. None"]
  from t1 n i
  have a: "snd (main (env0\<lparr>os_mkdir := Some (13, ''Permission denied'')\<rparr>)) = snd (main env0)"
    and b: "ensure_state_directory ''/root/.ansible'' (Some (13, ''Permission denied''))
              = [Warning (''Failed to create the directory '' @ [CHR 0x27] @ ''/root/.ansible''
                            @ [CHR 0x27] @ '': '' @ ''Permission denied'')]"
    and c: "prepare (\<lambda>p. None) {''/root/.ansible''} ''/root/.ansible''
              = ({''/root/.ansible''}, [])"
    by blast+
  from t2 f have d: "''/root/.ansible'' \<in> fst (prepare (\<lambda>p. None) {} ''/root/.ansible'')"
    by blast
  with t2
  have e: "prepare (\<lambda>p. None) (fst (prepare (\<lambda>p. None) {} ''/root/.ansible'')) ''/root/.ansible''
             = (fst (prepare (\<lambda>p. None) {} ''/root/.ansible''), [])"
    by blast
  from a b c d e show ?thesis by simp
qed

end
